theory Spec2Isabelle
  imports Complex_Main
begin

section \<open>Data model of the evaluator (src/evaluator/part1.py)\<close>

text \<open>
  The evaluator runs a reference (TA) agent and a candidate agent on the same initial
  position, measures time and memory, replays the produced solution and computes a tiered
  point.  The board, the agents, the process-memory query and the clock are collaborators
  outside the source file; they enter the model as parameters and as observed values.
  Python floats are modelled as reals: every claim below is about comparisons, maxima and
  control flow, which read the same on both.  The two roundings to hundredths are taken
  on the exact product; the float product can fall on the other side of a tie, and no
  statement below depends on which hundredth is chosen.
\<close>

type_synonym player = string
type_synonym position = "int \<times> int"

text \<open>
  Modelled from the spec: the Action type of module \<open>action\<close> is not part of the source
  file.  It has at minimum a move-kind variant carrying a player identifier and a target
  grid coordinate; the other variants (fence placement) are opaque, here a payload number.
\<close>

datatype action = MOVE player position | FENCE nat

text \<open>
  Python is dynamically typed: an agent's search may return any value.  The model keeps
  the values that take different paths through the evaluator: \<open>None\<close>, an integer (not
  iterable), and lists and tuples whose elements are actions or something else.
\<close>

datatype elem = Act action | NonAct nat

datatype pyval = PyNone | PyInt int | PyList "elem list" | PyTuple "elem list"

datatype exn =
    InvalidMove
  | InvalidFence
  | AssertionError string
  | KeyError string
  | TypeError
  | OtherError string

text \<open>\<open>float('inf')\<close> next to the integer turn counts.\<close>

datatype outcome = Turns int | Infinity

text \<open>
  The failure text of a Performance.  The three ways the source builds it are kept apart
  instead of being rendered to characters: \<open>traceback.format_exc()\<close> of a caught
  exception and the two limit messages with the number they print.
\<close>

datatype failure = Traceback exn | TimeLimitExceeded real | MemoryLimitExceeded real

record performance =
  failure :: "failure option"
  outcome :: outcome
  search :: "unit option"
  time :: real
  memory :: real
  point :: int

text \<open>
  The operations of \<open>GameBoard\<close> that the evaluator calls, for a board type \<open>'b\<close> and an
  initial-state type \<open>'s\<close>.  Operations whose result the evaluator wraps in a handler may
  raise; constructing, loading and the memory counters are taken to succeed.
\<close>

record ('b, 's) board_ops =
  new_board :: 'b
  set_to_state :: "'s \<Rightarrow> 'b \<Rightarrow> 'b"
  reset_memory_usage :: "'b \<Rightarrow> 'b"
  get_current_memory_usage :: "'b \<Rightarrow> 'b"
  get_max_memory_usage :: "'b \<Rightarrow> int"
  pawn_location :: "'b \<Rightarrow> player \<Rightarrow> exn + position"
  get_move_turns :: "'b \<Rightarrow> position \<Rightarrow> position \<Rightarrow> exn + int"
  simulate_action :: "'b \<Rightarrow> elem list \<Rightarrow> exn option \<times> 'b"
  is_game_end :: "'b \<Rightarrow> bool"

text \<open>An agent: its display name and its search entry point, which may raise and may
  change the board it is handed.\<close>

record 'b agent =
  name :: string
  heuristic_search :: "'b \<Rightarrow> (exn + pyval) \<times> 'b"

text \<open>Module constants.  The two hard limits are module-level values (both 0 in the
  source); they are parameters here so that a configured limit can be stated.\<close>

record config =
  HARD_TIME_LIMIT :: real
  HARD_MEMORY_LIMIT :: real

text \<open>Modelled from the spec: \<open>util.MEGABYTES\<close> is not part of the source file; the spec
  gives the divisor 1,048,576.\<close>

definition MEGABYTES :: real where
  "MEGABYTES = 1048576"

text \<open>What one run observes of its environment: the resident memory before the search,
  the samples of the monitoring thread up to the moment the peak is read (\<open>None\<close> when the
  query raised), and the two clock readings.\<close>

record observations =
  rss_before :: int
  rss_samples :: "int option list"
  time_start :: real
  time_end :: real

section \<open>Turn Calculator\<close>

text \<open>Python truth value of the values of the model (\<open>not solution\<close>).\<close>

fun truthy :: "pyval \<Rightarrow> bool" where
  "truthy PyNone = False"
| "truthy (PyInt n) = (n \<noteq> 0)"
| "truthy (PyList xs) = (xs \<noteq> [])"
| "truthy (PyTuple xs) = (xs \<noteq> [])"

text \<open>Iterating a value (\<open>for action in solution\<close>, \<open>*solution\<close>).\<close>

fun iterate :: "pyval \<Rightarrow> exn + elem list" where
  "iterate PyNone = Inl TypeError"
| "iterate (PyInt n) = Inl TypeError"
| "iterate (PyList xs) = Inr xs"
| "iterate (PyTuple xs) = Inr xs"

text \<open>The loop of \<open>calculate_total_turns\<close>, with its two variables \<open>total_turns\<close> and
  \<open>current_pos\<close>.\<close>

fun turns_loop ::
  "('b, 's) board_ops \<Rightarrow> 'b \<Rightarrow> elem list \<Rightarrow> int \<Rightarrow> position option \<Rightarrow> exn + int" where
  "turns_loop ops board [] total_turns current_pos = Inr total_turns"
| "turns_loop ops board (Act (MOVE player next_pos) # rest) total_turns current_pos =
     (case (case current_pos of
              None \<Rightarrow> pawn_location ops board player
            | Some p \<Rightarrow> Inr p) of
        Inl e \<Rightarrow> Inl e
      | Inr cur \<Rightarrow>
          (case get_move_turns ops board cur next_pos of
             Inl e \<Rightarrow> Inl e
           | Inr turns \<Rightarrow> turns_loop ops board rest (total_turns + turns) (Some next_pos)))"
| "turns_loop ops board (_ # rest) total_turns current_pos =
     turns_loop ops board rest total_turns current_pos"

definition calculate_total_turns ::
  "('b, 's) board_ops \<Rightarrow> 'b \<Rightarrow> pyval \<Rightarrow> exn + outcome" where
  "calculate_total_turns ops board solution =
     (if \<not> truthy solution then Inr Infinity
      else case iterate solution of
             Inl e \<Rightarrow> Inl e
           | Inr xs \<Rightarrow>
               (case turns_loop ops board xs 0 None of
                  Inl e \<Rightarrow> Inl e
                | Inr t \<Rightarrow> Inr (Turns t)))"

section \<open>Resource Monitor\<close>

text \<open>\<open>round\<close> of Python 3 on a float: to the nearest integer, a tie to the even one.\<close>

definition py_round :: "real \<Rightarrow> int" where
  "py_round x =
     (let f = \<lfloor>x\<rfloor>; d = x - of_int f
      in if d < 1 / 2 then f
         else if 1 / 2 < d then f + 1
         else if even f then f else f + 1)"

text \<open>One sample of the monitoring thread: a failed query leaves the peak alone.\<close>

definition update_memory :: "int option \<Rightarrow> real \<Rightarrow> real" where
  "update_memory sample peak_memory =
     (case sample of
        None \<Rightarrow> peak_memory
      | Some rss \<Rightarrow> max peak_memory (of_int rss / MEGABYTES))"

text \<open>The monitoring thread calls \<open>update_memory\<close> once per round until it sees the stop
  flag; its effect on the shared peak is the samples applied in order.\<close>

fun memory_monitor :: "int option list \<Rightarrow> real \<Rightarrow> real" where
  "memory_monitor [] peak_memory = peak_memory"
| "memory_monitor (sample # rest) peak_memory =
     memory_monitor rest (update_memory sample peak_memory)"

section \<open>Search Runner\<close>

text \<open>What the primary flow does, in order, as far as the claims speak of it.\<close>

datatype event =
    BeginSearch string
  | ClockRead
  | MonitorStart
  | SearchCall
  | StopSignal
  | MonitorJoin
  | ReplayReset
  | Simulate

fun is_action :: "elem \<Rightarrow> bool" where
  "is_action (Act a) = True"
| "is_action (NonAct n) = False"

text \<open>The \<open>try\<close>/\<open>except\<close>/\<open>finally\<close> block around the search call.  The variable
  \<open>solution\<close> starts as \<open>None\<close> and is assigned when the call returns, before the two
  assertions on its shape.  Result: solution, failure, the board, the events.\<close>

definition search_attempt ::
  "'b agent \<Rightarrow> 'b \<Rightarrow> pyval \<times> failure option \<times> 'b \<times> event list" where
  "search_attempt a board =
     (case heuristic_search a board of
        (Inl e, board') \<Rightarrow>
          (PyNone, Some (Traceback e), board', [MonitorStart, SearchCall, StopSignal])
      | (Inr solution, board') \<Rightarrow>
          (solution,
           (case solution of
              PyList xs \<Rightarrow>
                if list_all is_action xs then None
                else Some (Traceback (AssertionError
                  ''Solution should be a list of ACTIONs. It contains an element which is not an ACTION.''))
            | _ \<Rightarrow>
                Some (Traceback (AssertionError
                  ''Solution should be a LIST of actions. The current outcome is not a list.''))),
           board',
           [MonitorStart, SearchCall, StopSignal, MonitorJoin, StopSignal]))"

definition time_delta_of :: "observations \<Rightarrow> real" where
  "time_delta_of obs = of_int (py_round ((time_end obs - time_start obs) * 100)) / 100"

definition initial_memory_of :: "observations \<Rightarrow> real" where
  "initial_memory_of obs = of_int (rss_before obs) / MEGABYTES"

definition peak_memory_of :: "observations \<Rightarrow> real" where
  "peak_memory_of obs = memory_monitor (rss_samples obs) (initial_memory_of obs)"

definition memory_usage_of :: "('b, 's) board_ops \<Rightarrow> 'b \<Rightarrow> observations \<Rightarrow> real" where
  "memory_usage_of ops board obs =
     (let board_memory = of_int (get_max_memory_usage ops board) / MEGABYTES
      in of_int (py_round (max board_memory (peak_memory_of obs - initial_memory_of obs) * 100)) / 100)"

section \<open>Outcome Validator\<close>

text \<open>The handler of the replay names two exception classes only.\<close>

fun replay_catches :: "exn \<Rightarrow> bool" where
  "replay_catches InvalidMove = True"
| "replay_catches InvalidFence = True"
| "replay_catches _ = False"

text \<open>Lines 131 to 140: result is the failure, \<open>total_turns\<close>, \<open>is_end\<close> and the board,
  or the exception that leaves the handler.\<close>

definition replay ::
  "('b, 's) board_ops \<Rightarrow> 's \<Rightarrow> 'b \<Rightarrow> pyval \<Rightarrow> failure option \<Rightarrow>
     (exn + failure option \<times> outcome \<times> bool \<times> 'b) \<times> event list" where
  "replay ops initial_state board solution failure0 =
     (if solution = PyNone then (Inr (failure0, Infinity, False, board), [])
      else
        let board1 = set_to_state ops initial_state board
        in case calculate_total_turns ops board1 solution of
             Inl e \<Rightarrow>
               (if replay_catches e then Inr (Some (Traceback e), Infinity, False, board1)
                else Inl e, [ReplayReset])
           | Inr total_turns \<Rightarrow>
               (case iterate solution of
                  Inl e \<Rightarrow>
                    (if replay_catches e then Inr (Some (Traceback e), total_turns, False, board1)
                     else Inl e, [ReplayReset])
                | Inr args \<Rightarrow>
                    (case simulate_action ops board1 args of
                       (Some e, board2) \<Rightarrow>
                         (if replay_catches e
                          then Inr (Some (Traceback e), total_turns, False, board2)
                          else Inl e, [ReplayReset, Simulate])
                     | (None, board2) \<Rightarrow>
                         (Inr (failure0, total_turns, is_game_end ops board2, board2),
                          [ReplayReset, Simulate]))))"

section \<open>One agent's run (the body of the loop over \<open>['ta', 'agent']\<close>)\<close>

text \<open>Lines 58 to 60: the board is reset to the initial state and its memory counters are
  reset and read once.\<close>

definition prepare_board :: "('b, 's) board_ops \<Rightarrow> 's \<Rightarrow> 'b \<Rightarrow> 'b" where
  "prepare_board ops initial_state board =
     get_current_memory_usage ops
       (reset_memory_usage ops (set_to_state ops initial_state board))"

text \<open>How a step leaves: an exception, a \<open>return\<close> of the whole function, or on to the
  next statement.\<close>

datatype 'a flow = Raise exn | Return performance | Next 'a

definition run_agent ::
  "config \<Rightarrow> ('b, 's) board_ops \<Rightarrow> 's \<Rightarrow> observations \<Rightarrow> string \<Rightarrow> 'b agent \<Rightarrow> 'b \<Rightarrow>
     ('b \<times> performance) flow \<times> event list" where
  "run_agent cfg ops initial_state obs k a board =
     (let board0 = prepare_board ops initial_state board;
          (solution, failure0, board1, evs) = search_attempt a board0;
          tr = [BeginSearch (name a), ClockRead] @ evs @ [ClockRead];
          time_delta = time_delta_of obs;
          memory_usage = memory_usage_of ops board1 obs
      in if k = ''agent'' \<and> time_delta > HARD_TIME_LIMIT cfg \<and> HARD_TIME_LIMIT cfg > 0 then
           (Return \<lparr>failure = Some (TimeLimitExceeded time_delta), outcome = Infinity,
                    search = None, time = time_delta, memory = memory_usage, point = 1\<rparr>, tr)
         else if k = ''agent'' \<and> memory_usage > HARD_MEMORY_LIMIT cfg
                 \<and> HARD_MEMORY_LIMIT cfg > 0 then
           (Return \<lparr>failure = Some (MemoryLimitExceeded memory_usage), outcome = Infinity,
                    search = None, time = time_delta, memory = memory_usage, point = 1\<rparr>, tr)
         else
           (case replay ops initial_state board1 solution failure0 of
              (Inl e, evs') \<Rightarrow> (Raise e, tr @ evs')
            | (Inr (failure1, total_turns, is_end, board2), evs') \<Rightarrow>
                (Next (board2,
                   \<lparr>failure = failure1,
                    outcome = (if solution \<noteq> PyNone then total_turns else Infinity),
                    search = None, time = time_delta, memory = memory_usage,
                    point = 1 + of_bool is_end\<rparr>), tr @ evs')))"

fun agents_loop ::
  "config \<Rightarrow> ('b, 's) board_ops \<Rightarrow> 's \<Rightarrow> (string \<Rightarrow> observations) \<Rightarrow>
     (string \<rightharpoonup> 'b agent) \<Rightarrow> string list \<Rightarrow> 'b \<Rightarrow> (string \<rightharpoonup> performance) \<Rightarrow> event list \<Rightarrow>
     ('b \<times> (string \<rightharpoonup> performance)) flow \<times> event list" where
  "agents_loop cfg ops initial_state obs agents [] board results tr =
     (Next (board, results), tr)"
| "agents_loop cfg ops initial_state obs agents (k # ks) board results tr =
     (case agents k of
        None \<Rightarrow> (Raise (KeyError k), tr)
      | Some a \<Rightarrow>
          (case run_agent cfg ops initial_state (obs k) k a board of
             (Raise e, tr') \<Rightarrow> (Raise e, tr @ tr')
           | (Return p, tr') \<Rightarrow> (Return p, tr @ tr')
           | (Next (board', perf), tr') \<Rightarrow>
               agents_loop cfg ops initial_state obs agents ks board'
                 (results(k \<mapsto> perf)) (tr @ tr')))"

section \<open>Scorer\<close>

text \<open>Comparisons of outcomes, an integer or \<open>float('inf')\<close> on either side.\<close>

fun outcome_ge :: "outcome \<Rightarrow> outcome \<Rightarrow> bool" where
  "outcome_ge Infinity _ = True"
| "outcome_ge (Turns a) Infinity = False"
| "outcome_ge (Turns a) (Turns b) = (a \<ge> b)"

fun outcome_positive :: "outcome \<Rightarrow> bool" where
  "outcome_positive Infinity = True"
| "outcome_positive (Turns a) = (a > 0)"

definition is_beating_ta_outcome :: "(string \<rightharpoonup> performance) \<Rightarrow> performance \<Rightarrow> bool" where
  "is_beating_ta_outcome results res =
     (case results ''ta'' of
        None \<Rightarrow> True
      | Some ta \<Rightarrow>
          (outcome_ge (outcome ta) (outcome res) \<and> outcome_positive (outcome res))
          \<or> (outcome ta = outcome res \<and> outcome res = Turns 0))"

definition is_beating_ta_time :: "(string \<rightharpoonup> performance) \<Rightarrow> performance \<Rightarrow> bool" where
  "is_beating_ta_time results res =
     (case results ''ta'' of None \<Rightarrow> False | Some ta \<Rightarrow> time ta \<ge> time res)"

definition is_beating_ta_memory :: "(string \<rightharpoonup> performance) \<Rightarrow> performance \<Rightarrow> bool" where
  "is_beating_ta_memory results res =
     (case results ''ta'' of None \<Rightarrow> False | Some ta \<Rightarrow> memory ta \<ge> memory res)"

definition is_basic_stage :: "(string \<rightharpoonup> performance) \<Rightarrow> performance \<Rightarrow> bool" where
  "is_basic_stage results res =
     (failure res = None \<and> point res > 1 \<and> is_beating_ta_outcome results res)"

definition is_intermediate_stage :: "(string \<rightharpoonup> performance) \<Rightarrow> performance \<Rightarrow> bool" where
  "is_intermediate_stage results res = (is_basic_stage results res \<and> memory res \<le> 1)"

definition is_advanced_stage :: "(string \<rightharpoonup> performance) \<Rightarrow> performance \<Rightarrow> bool" where
  "is_advanced_stage results res =
     (is_intermediate_stage results res \<and> is_beating_ta_time results res)"

definition is_challenge_stage :: "(string \<rightharpoonup> performance) \<Rightarrow> performance \<Rightarrow> bool" where
  "is_challenge_stage results res =
     (is_advanced_stage results res \<and> is_beating_ta_memory results res)"

text \<open>Lines 152 to 175: the final Performance from the dictionary of results.\<close>

definition final_performance :: "(string \<rightharpoonup> performance) \<Rightarrow> exn + performance" where
  "final_performance results =
     (case results ''agent'' of
        None \<Rightarrow> Inl (KeyError ''agent'')
      | Some res \<Rightarrow>
          Inr \<lparr>failure = failure res, outcome = outcome res, search = search res,
               time = time res, memory = memory res,
               point = 1 + of_bool (is_basic_stage results res)
                         + of_bool (is_intermediate_stage results res)
                         + of_bool (is_advanced_stage results res)
                         + of_bool (is_challenge_stage results res)\<rparr>)"

section \<open>The evaluation entry point\<close>

definition execute_heuristic_search ::
  "config \<Rightarrow> ('b, 's) board_ops \<Rightarrow> ('b \<Rightarrow> 'b agent option) \<Rightarrow> (string \<Rightarrow> observations) \<Rightarrow>
     'b agent \<Rightarrow> 's \<Rightarrow> (exn + performance) \<times> event list" where
  "execute_heuristic_search cfg ops load_ta_agent obs agent initial_state =
     (let board = set_to_state ops initial_state (new_board ops);
          agents0 = [''agent'' \<mapsto> agent];
          agents = (case load_ta_agent board of
                      None \<Rightarrow> agents0
                    | Some ta_agent \<Rightarrow> agents0(''ta'' \<mapsto> ta_agent))
      in case agents_loop cfg ops initial_state obs agents [''ta'', ''agent''] board
                Map.empty [] of
           (Raise e, tr) \<Rightarrow> (Inl e, tr)
         | (Return p, tr) \<Rightarrow> (Inr p, tr)
         | (Next (board', results), tr) \<Rightarrow> (final_performance results, tr))"

section \<open>The Turn Calculator in the words of the specification\<close>

text \<open>The move actions of a solution: which elements are moves, the targets of the moves
  in order, and the player of the first move.\<close>

fun is_move :: "elem \<Rightarrow> bool" where
  "is_move (Act (MOVE p q)) = True"
| "is_move _ = False"

fun move_targets :: "elem list \<Rightarrow> position list" where
  "move_targets [] = []"
| "move_targets (Act (MOVE p q) # xs) = q # move_targets xs"
| "move_targets (_ # xs) = move_targets xs"

fun first_mover :: "elem list \<Rightarrow> player option" where
  "first_mover [] = None"
| "first_mover (Act (MOVE p q) # xs) = Some p"
| "first_mover (_ # xs) = first_mover xs"

section \<open>A small board on which the model is run\<close>

text \<open>One pawn on a grid: a move is legal when it goes to a neighbouring cell, a fence
  with payload 0 is illegal, a move costs its grid distance in turns, and the game ends on
  row 2.\<close>

fun lane_simulate :: "position \<Rightarrow> elem list \<Rightarrow> exn option \<times> position" where
  "lane_simulate b [] = (None, b)"
| "lane_simulate b (Act (MOVE p q) # xs) =
     (if \<bar>fst q - fst b\<bar> + \<bar>snd q - snd b\<bar> = 1 then lane_simulate q xs
      else (Some InvalidMove, b))"
| "lane_simulate b (Act (FENCE n) # xs) =
     (if n = 0 then (Some InvalidFence, b) else lane_simulate b xs)"
| "lane_simulate b (NonAct n # xs) = (Some (OtherError ''AttributeError''), b)"

definition lane_ops :: "(position, position) board_ops" where
  "lane_ops =
     \<lparr>new_board = (0, 0),
      set_to_state = (\<lambda>s b. s),
      reset_memory_usage = (\<lambda>b. b),
      get_current_memory_usage = (\<lambda>b. b),
      get_max_memory_usage = (\<lambda>b. 0),
      pawn_location = (\<lambda>b p. if p = ''white'' then Inr b else Inl (KeyError p)),
      get_move_turns = (\<lambda>b c n. Inr (\<bar>fst n - fst c\<bar> + \<bar>snd n - snd c\<bar>)),
      simulate_action = lane_simulate,
      is_game_end = (\<lambda>b. snd b = 2)\<rparr>"

text \<open>An agent whose search gives the same answer on every board.\<close>

definition fixed_agent :: "string \<Rightarrow> exn + pyval \<Rightarrow> position agent" where
  "fixed_agent n r = \<lparr>name = n, heuristic_search = (\<lambda>b. (r, b))\<rparr>"

definition two_moves :: "elem list" where
  "two_moves = [Act (MOVE ''white'' (0, 1)), Act (MOVE ''white'' (0, 2))]"

definition quiet :: observations where
  "quiet = \<lparr>rss_before = 0, rss_samples = [], time_start = 0, time_end = 0\<rparr>"

text \<open>A run of 7.2 seconds whose resident memory grows from 1 MB to 3 MB.\<close>

definition slow :: observations where
  "slow = \<lparr>rss_before = 1048576, rss_samples = [Some 3145728, None],
           time_start = 1, time_end = 82 / 10\<rparr>"

definition no_limits :: config where
  "no_limits = \<lparr>HARD_TIME_LIMIT = 0, HARD_MEMORY_LIMIT = 0\<rparr>"

text \<open>The Performance of a run that reaches the goal in two turns.\<close>

definition goal_run :: performance where
  "goal_run = \<lparr>failure = None, outcome = Turns 2, search = None, time = 0, memory = 0,
               point = 2\<rparr>"

text \<open>Moves with fences between them; the first move jumps two cells.\<close>

definition fenced_moves :: "elem list" where
  "fenced_moves =
     [Act (FENCE 1), Act (MOVE ''white'' (0, 2)), Act (FENCE 2), Act (MOVE ''white'' (0, 3))]"

text \<open>Two configurations with one limit each: five seconds, one megabyte.\<close>

definition five_seconds :: config where
  "five_seconds = \<lparr>HARD_TIME_LIMIT = 5, HARD_MEMORY_LIMIT = 0\<rparr>"

definition one_megabyte :: config where
  "one_megabyte = \<lparr>HARD_TIME_LIMIT = 0, HARD_MEMORY_LIMIT = 1\<rparr>"

text \<open>Agents and solutions for the runs below: a reference that reaches the goal, a
  solution whose second action is an illegal fence, a candidate whose search raises, and
  observations that are slow for the candidate only.\<close>

definition reference :: "position agent" where
  "reference = fixed_agent ''reference'' (Inr (PyList two_moves))"

definition fence_after_move :: "elem list" where
  "fence_after_move = [Act (MOVE ''white'' (0, 1)), Act (FENCE 0)]"

definition candidate_slow :: "string \<Rightarrow> observations" where
  "candidate_slow k = (if k = ''agent'' then slow else quiet)"

definition failing :: "position agent" where
  "failing = fixed_agent ''candidate'' (Inl (OtherError ''search failed''))"

text \<open>A candidate that reaches the goal in two moves.\<close>

definition winner :: "position agent" where
  "winner = fixed_agent ''candidate'' (Inr (PyList two_moves))"

section \<open>Properties\<close>

subsection \<open>Resource Monitor: the peak never falls below the baseline\<close>

lemma memory_monitor_ge: "p \<le> memory_monitor samples p"
proof (induction samples arbitrary: p)
  case Nil
  show ?case by simp
next
  case (Cons s ss)
  have "p \<le> update_memory s p"
    by (simp add: update_memory_def split: option.splits)
  also have "\<dots> \<le> memory_monitor ss (update_memory s p)"
    by (rule Cons.IH)
  finally show ?case by simp
qed

text \<open>
  Claim C9.  The shared peak starts at the baseline sampled before the search call (no
  sample leaves it there), a sample either leaves it alone (failed query) or replaces it
  by the maximum of itself and the sample, so the peak read after the search is at least
  the baseline and peak minus baseline is never negative.
\<close>

theorem peak_memory_never_below_baseline:
  "memory_monitor [] (initial_memory_of obs) = initial_memory_of obs
   \<and> update_memory None p = p
   \<and> update_memory (Some rss) p = max p (of_int rss / MEGABYTES)
   \<and> initial_memory_of obs \<le> peak_memory_of obs
   \<and> 0 \<le> peak_memory_of obs - initial_memory_of obs"
  using memory_monitor_ge [of "initial_memory_of obs" "rss_samples obs"]
  by (simp add: peak_memory_of_def update_memory_def)

subsection \<open>The entry point without a reference agent\<close>

text \<open>
  Claim C1 says that every evaluation ends in a Performance, also when no reference (TA)
  agent is available.  The loop runs over the keys \<open>'ta'\<close> and \<open>'agent'\<close> and looks each
  up in the dictionary of agents; when \<open>load_ta_agent\<close> gives \<open>None\<close> the key \<open>'ta'\<close> is
  missing, and the lookup raises KeyError out of the entry point, for every agent, board
  and initial state.
\<close>

theorem execute_without_reference_raises:
  "fst (execute_heuristic_search cfg ops (\<lambda>board. None) obs agent initial_state)
     = Inl (KeyError ''ta'')"
  by (simp add: execute_heuristic_search_def)

subsection \<open>Scorer\<close>

text \<open>
  Claim C6.  The final point is 1 plus the number of tiers satisfied; it lies between
  1 and 5; each tier requires the previous one, so the point reaches 2, 3, 4, 5 exactly
  when Basic, Intermediate, Advanced, Challenge hold, and no tier is skipped.
\<close>

theorem point_counts_gated_tiers:
  "results ''agent'' = Some res \<Longrightarrow>
   (\<exists>p. final_performance results = Inr p
      \<and> point p = 1 + of_bool (is_basic_stage results res)
                    + of_bool (is_intermediate_stage results res)
                    + of_bool (is_advanced_stage results res)
                    + of_bool (is_challenge_stage results res)
      \<and> 1 \<le> point p \<and> point p \<le> 5
      \<and> (2 \<le> point p) = is_basic_stage results res
      \<and> (3 \<le> point p) = is_intermediate_stage results res
      \<and> (4 \<le> point p) = is_advanced_stage results res
      \<and> (5 \<le> point p) = is_challenge_stage results res)
   \<and> (is_challenge_stage results res \<longrightarrow> is_advanced_stage results res)
   \<and> (is_advanced_stage results res \<longrightarrow> is_intermediate_stage results res)
   \<and> (is_intermediate_stage results res \<longrightarrow> is_basic_stage results res)"
  by (auto simp: final_performance_def is_challenge_stage_def is_advanced_stage_def
        is_intermediate_stage_def)

theorem point_counts_gated_tiers_witness:
  "[''ta'' \<mapsto> goal_run, ''agent'' \<mapsto> goal_run] ''agent'' = Some goal_run
   \<and> is_challenge_stage [''ta'' \<mapsto> goal_run, ''agent'' \<mapsto> goal_run] goal_run
   \<and> is_advanced_stage [''ta'' \<mapsto> goal_run, ''agent'' \<mapsto> goal_run] goal_run
   \<and> is_intermediate_stage [''ta'' \<mapsto> goal_run, ''agent'' \<mapsto> goal_run] goal_run
   \<and> is_basic_stage [''ta'' \<mapsto> goal_run, ''agent'' \<mapsto> goal_run] goal_run
   \<and> (\<exists>p. final_performance [''ta'' \<mapsto> goal_run, ''agent'' \<mapsto> goal_run] = Inr p
        \<and> point p = 5)"
  using point_counts_gated_tiers [of "[''ta'' \<mapsto> goal_run, ''agent'' \<mapsto> goal_run]" goal_run]
  by (auto simp add: is_challenge_stage_def is_advanced_stage_def is_intermediate_stage_def
        is_basic_stage_def is_beating_ta_outcome_def is_beating_ta_time_def
        is_beating_ta_memory_def goal_run_def)

subsection \<open>Turn Calculator\<close>

lemma turns_loop_from_cursor:
  "list_all2 (\<lambda>(a, b) c. get_move_turns ops board a b = Inr c)
     (zip (c0 # move_targets xs) (move_targets xs)) costs \<Longrightarrow>
   turns_loop ops board xs acc (Some c0) = Inr (acc + sum_list costs)"
  by (induction ops board xs acc "Some c0" arbitrary: c0 costs rule: turns_loop.induct)
     (auto simp: list_all2_Cons1)

lemma turns_loop_no_moves:
  "first_mover xs = None \<Longrightarrow> turns_loop ops board xs acc cur = Inr acc"
  by (induction ops board xs acc cur rule: turns_loop.induct) auto

lemma turns_loop_seeded:
  "first_mover xs = Some pl \<Longrightarrow> pawn_location ops board pl = Inr start \<Longrightarrow>
   list_all2 (\<lambda>(a, b) c. get_move_turns ops board a b = Inr c)
     (zip (start # move_targets xs) (move_targets xs)) costs \<Longrightarrow>
   turns_loop ops board xs acc None = Inr (acc + sum_list costs)"
  by (induction ops board xs acc "None :: position option" arbitrary: costs rule: turns_loop.induct)
     (auto simp: list_all2_Cons1 turns_loop_from_cursor)

lemma turns_loop_filter:
  "turns_loop ops board xs acc cur = turns_loop ops board (filter is_move xs) acc cur"
  by (induction ops board xs acc cur rule: turns_loop.induct) (auto split: sum.splits option.splits)

text \<open>
  Claim C7.  An absent or empty solution gives +infinity.  A non-empty solution is walked
  in order: the cursor is seeded from the pawn location of the first move's player, each
  move adds the board's turn cost from the cursor to its target and moves the cursor
  there, so the result is the sum of those costs (0 when there is no move); elements
  that are not moves add nothing and leave the cursor alone.
\<close>

theorem total_turns_sums_move_costs:
  "calculate_total_turns ops board PyNone = Inr Infinity
   \<and> calculate_total_turns ops board (PyList []) = Inr Infinity
   \<and> (xs \<noteq> [] \<longrightarrow> first_mover xs = None \<longrightarrow>
        calculate_total_turns ops board (PyList xs) = Inr (Turns 0))
   \<and> (xs \<noteq> [] \<longrightarrow> first_mover xs = Some pl \<longrightarrow> pawn_location ops board pl = Inr start \<longrightarrow>
        list_all2 (\<lambda>(a, b) c. get_move_turns ops board a b = Inr c)
          (zip (start # move_targets xs) (move_targets xs)) costs \<longrightarrow>
        calculate_total_turns ops board (PyList xs) = Inr (Turns (sum_list costs)))
   \<and> turns_loop ops board xs acc cur = turns_loop ops board (filter is_move xs) acc cur"
  using turns_loop_filter [of ops board xs acc cur]
  by (simp add: calculate_total_turns_def turns_loop_no_moves turns_loop_seeded)

theorem total_turns_sums_move_costs_witness:
  "calculate_total_turns lane_ops (0, 0) (PyList [Act (FENCE 1)]) = Inr (Turns 0)
   \<and> first_mover fenced_moves = Some ''white''
   \<and> pawn_location lane_ops (0, 0) ''white'' = Inr (0, 0)
   \<and> list_all2 (\<lambda>(a, b) c. get_move_turns lane_ops (0, 0) a b = Inr c)
        (zip ((0, 0) # move_targets fenced_moves) (move_targets fenced_moves)) [2, 1]
   \<and> calculate_total_turns lane_ops (0, 0) (PyList fenced_moves) = Inr (Turns 3)"
  using total_turns_sums_move_costs [where ops = lane_ops and board = "(0, 0)"
      and xs = "[Act (FENCE 1)]" and acc = 0 and cur = None]
    total_turns_sums_move_costs [where ops = lane_ops and board = "(0, 0)"
      and xs = fenced_moves and pl = "''white''" and start = "(0, 0)" and costs = "[2, 1]"
      and acc = 0 and cur = None]
  by (simp add: fenced_moves_def lane_ops_def)

subsection \<open>Evaluating the small board and the observations\<close>

lemma lane_ops_simps:
  "new_board lane_ops = (0, 0)"
  "set_to_state lane_ops s b = s"
  "reset_memory_usage lane_ops b = b"
  "get_current_memory_usage lane_ops b = b"
  "get_max_memory_usage lane_ops b = 0"
  "pawn_location lane_ops b p = (if p = ''white'' then Inr b else Inl (KeyError p))"
  "get_move_turns lane_ops b c n = Inr (\<bar>fst n - fst c\<bar> + \<bar>snd n - snd c\<bar>)"
  "simulate_action lane_ops = lane_simulate"
  "is_game_end lane_ops b = (snd b = 2)"
  by (simp_all add: lane_ops_def)

lemma time_delta_slow: "time_delta_of slow = 36 / 5"
  by (simp add: time_delta_of_def slow_def py_round_def)

lemma memory_usage_slow: "memory_usage_of lane_ops b slow = 2"
  by (simp add: memory_usage_of_def slow_def py_round_def peak_memory_of_def
        initial_memory_of_def lane_ops_def update_memory_def MEGABYTES_def)

lemma time_delta_quiet: "time_delta_of quiet = 0"
  by (simp add: time_delta_of_def quiet_def py_round_def)

lemma memory_usage_quiet: "memory_usage_of lane_ops b quiet = 0"
  by (simp add: memory_usage_of_def quiet_def py_round_def peak_memory_of_def
        initial_memory_of_def lane_ops_def update_memory_def MEGABYTES_def)

subsection \<open>Search Runner: stopping the monitor\<close>

lemma replay_events:
  "set (snd (replay ops s board solution f0)) \<subseteq> {ReplayReset, Simulate}"
  by (auto simp: replay_def Let_def split: sum.splits prod.splits option.splits if_splits)

text \<open>
  Claim C3 as stated fails on the path where the search call raises: the handler records
  the failure and the \<open>finally\<close> block sets the stop flag, but the join is a statement of
  the normal path only.  For a candidate whose search raises, the events up to the clock
  reading hold no join.
\<close>

theorem raising_search_not_joined_counterexample:
  "snd (run_agent no_limits lane_ops (0, 0) quiet ''agent''
          (fixed_agent ''candidate'' (Inl (OtherError ''search failed''))) (0, 0))
     = [BeginSearch ''candidate'', ClockRead, MonitorStart, SearchCall, StopSignal, ClockRead]
   \<and> MonitorJoin \<notin> set (snd (run_agent no_limits lane_ops (0, 0) quiet ''agent''
          (fixed_agent ''candidate'' (Inl (OtherError ''search failed''))) (0, 0)))"
  by (simp add: run_agent_def search_attempt_def replay_def fixed_agent_def prepare_board_def
        lane_ops_simps no_limits_def time_delta_quiet memory_usage_quiet Let_def)

text \<open>
  Claim C3, amended.  On every exit path of the search attempt the monitoring task is
  signalled to stop before the clock is read for the elapsed time.  It is joined (after
  a first stop signal, and before the signal of the \<open>finally\<close> block) exactly when the
  search call returned, whatever the shape of the returned value; when the call raised,
  the stop signal is the only cleanup.
\<close>

theorem monitor_stopped_before_clock:
  "\<exists>rest. snd (run_agent cfg ops s obs k a board) =
      [BeginSearch (name a), ClockRead, MonitorStart, SearchCall]
      @ (if isl (fst (heuristic_search a (prepare_board ops s board)))
         then [StopSignal]
         else [StopSignal, MonitorJoin, StopSignal])
      @ [ClockRead] @ rest
    \<and> set rest \<subseteq> {ReplayReset, Simulate}"
proof -
  obtain r b1 where hs: "heuristic_search a (prepare_board ops s board) = (r, b1)"
    by (cases "heuristic_search a (prepare_board ops s board)")
  obtain sol f0 evs where sa: "search_attempt a (prepare_board ops s board) = (sol, f0, b1, evs)"
    and evs: "evs = [MonitorStart, SearchCall]
      @ (if isl r then [StopSignal] else [StopSignal, MonitorJoin, StopSignal])"
    using hs by (cases r) (simp_all add: search_attempt_def)
  obtain res evs' where rp: "replay ops s b1 sol f0 = (res, evs')"
    by (cases "replay ops s b1 sol f0")
  have sub: "set evs' \<subseteq> {ReplayReset, Simulate}"
    using replay_events [of ops s b1 sol f0] rp by simp
  show ?thesis
    using hs sa evs rp sub
    by (cases res) (auto simp: run_agent_def Let_def)
qed

subsection \<open>Search Runner: the hard limits\<close>

text \<open>When one run of the loop body leaves by \<open>return\<close>, and with what.\<close>

lemma run_agent_limit_return:
  "(let r = run_agent cfg ops s obs k a board;
        board1 = snd (heuristic_search a (prepare_board ops s board));
        t = time_delta_of obs;
        m = memory_usage_of ops board1 obs;
        over_time = (t > HARD_TIME_LIMIT cfg \<and> HARD_TIME_LIMIT cfg > 0);
        over_memory = (m > HARD_MEMORY_LIMIT cfg \<and> HARD_MEMORY_LIMIT cfg > 0)
    in ((\<exists>p. fst r = Return p) = (k = ''agent'' \<and> (over_time \<or> over_memory)))
       \<and> (k = ''agent'' \<and> (over_time \<or> over_memory) \<longrightarrow>
            fst r = Return \<lparr>failure = Some (if over_time then TimeLimitExceeded t
                                              else MemoryLimitExceeded m),
                             outcome = Infinity, search = None, time = t, memory = m,
                             point = 1\<rparr>
            \<and> ReplayReset \<notin> set (snd r) \<and> Simulate \<notin> set (snd r))
       \<and> (HARD_TIME_LIMIT cfg \<le> 0 \<and> HARD_MEMORY_LIMIT cfg \<le> 0 \<longrightarrow> (\<forall>p. fst r \<noteq> Return p)))"
proof -
  obtain r b1 where hs: "heuristic_search a (prepare_board ops s board) = (r, b1)"
    by (cases "heuristic_search a (prepare_board ops s board)")
  obtain sol f0 evs where sa: "search_attempt a (prepare_board ops s board) = (sol, f0, b1, evs)"
    and evs: "set evs \<subseteq> {MonitorStart, SearchCall, StopSignal, MonitorJoin}"
    using hs by (cases r) (simp_all add: search_attempt_def)
  obtain res evs' where rp: "replay ops s b1 sol f0 = (res, evs')"
    by (cases "replay ops s b1 sol f0")
  show ?thesis
    using hs sa evs rp
    by (cases res) (auto simp: run_agent_def Let_def)
qed

subsection \<open>The entry point with a reference agent\<close>

lemma execute_two_runs:
  assumes "load_ta_agent (set_to_state ops s (new_board ops)) = Some ta"
    and "fst (run_agent cfg ops s (obs ''ta'') ''ta'' ta (set_to_state ops s (new_board ops)))
           = Next (b1, pta)"
  shows "fst (execute_heuristic_search cfg ops load_ta_agent obs agent s) =
           (case fst (run_agent cfg ops s (obs ''agent'') ''agent'' agent b1) of
              Raise e \<Rightarrow> Inl e
            | Return p \<Rightarrow> Inr p
            | Next (b2, pa) \<Rightarrow> final_performance [''ta'' \<mapsto> pta, ''agent'' \<mapsto> pa])"
proof -
  obtain tr1 where r1: "run_agent cfg ops s (obs ''ta'') ''ta'' ta (set_to_state ops s (new_board ops))
      = (Next (b1, pta), tr1)"
    using assms(2) by (cases "run_agent cfg ops s (obs ''ta'') ''ta'' ta (set_to_state ops s (new_board ops))") simp
  obtain f2 tr2 where r2: "run_agent cfg ops s (obs ''agent'') ''agent'' agent b1 = (f2, tr2)"
    by (cases "run_agent cfg ops s (obs ''agent'') ''agent'' agent b1")
  show ?thesis
    using assms(1) r1 r2
    by (cases f2) (auto simp: execute_heuristic_search_def Let_def)
qed

lemma failed_run_scores_one:
  "failure pa \<noteq> None \<Longrightarrow>
   final_performance [''ta'' \<mapsto> pta, ''agent'' \<mapsto> pa] = Inr (pa\<lparr>point := 1\<rparr>)"
  by (simp add: final_performance_def is_challenge_stage_def is_advanced_stage_def
        is_intermediate_stage_def is_basic_stage_def)

lemma reference_run:
  "fst (run_agent cfg lane_ops (0, 0) quiet ''ta'' reference b) = Next ((0, 2), goal_run)"
  by (simp add: run_agent_def search_attempt_def replay_def reference_def fixed_agent_def
        prepare_board_def lane_ops_simps time_delta_quiet memory_usage_quiet Let_def
        two_moves_def calculate_total_turns_def goal_run_def)

subsection \<open>Outcome Validator: a rule violation at replay\<close>

text \<open>
  Claim C5.  The candidate's search returns a well-formed list, no limit is exceeded, the
  Turn Calculator gives \<open>t\<close>, and the batch simulation raises an illegal-move or
  illegal-fence error \<open>e\<close>.  Then the error is caught and becomes the failure text, the
  run's outcome stays \<open>t\<close> (not +infinity), its point is 1, and since the failure is not
  null the Basic tier fails: the final Performance has that failure, outcome \<open>t\<close> and
  point 1.
\<close>

theorem illegal_replay_keeps_turn_count:
  assumes "load_ta_agent (set_to_state ops s (new_board ops)) = Some ta"
    and "fst (run_agent cfg ops s (obs ''ta'') ''ta'' ta (set_to_state ops s (new_board ops)))
           = Next (b1, pta)"
    and "heuristic_search agent (prepare_board ops s b1) = (Inr (PyList xs), b2)"
    and "list_all is_action xs"
    and "\<not> (time_delta_of (obs ''agent'') > HARD_TIME_LIMIT cfg \<and> HARD_TIME_LIMIT cfg > 0)"
    and "\<not> (memory_usage_of ops b2 (obs ''agent'') > HARD_MEMORY_LIMIT cfg
              \<and> HARD_MEMORY_LIMIT cfg > 0)"
    and "calculate_total_turns ops (set_to_state ops s b2) (PyList xs) = Inr t"
    and "simulate_action ops (set_to_state ops s b2) xs = (Some e, b3)"
    and "e = InvalidMove \<or> e = InvalidFence"
  shows "fst (run_agent cfg ops s (obs ''agent'') ''agent'' agent b1) =
           Next (b3, \<lparr>failure = Some (Traceback e), outcome = t, search = None,
                      time = time_delta_of (obs ''agent''),
                      memory = memory_usage_of ops b2 (obs ''agent''), point = 1\<rparr>)
         \<and> fst (execute_heuristic_search cfg ops load_ta_agent obs agent s) =
           Inr \<lparr>failure = Some (Traceback e), outcome = t, search = None,
                time = time_delta_of (obs ''agent''),
                memory = memory_usage_of ops b2 (obs ''agent''), point = 1\<rparr>"
proof -
  have sa: "search_attempt agent (prepare_board ops s b1) =
      (PyList xs, None, b2, [MonitorStart, SearchCall, StopSignal, MonitorJoin, StopSignal])"
    using assms(3,4) by (simp add: search_attempt_def)
  have rp: "fst (replay ops s b2 (PyList xs) None) = Inr (Some (Traceback e), t, False, b3)"
    using assms(7,8,9) by (auto simp: replay_def Let_def)
  have run: "fst (run_agent cfg ops s (obs ''agent'') ''agent'' agent b1) =
      Next (b3, \<lparr>failure = Some (Traceback e), outcome = t, search = None,
                 time = time_delta_of (obs ''agent''),
                 memory = memory_usage_of ops b2 (obs ''agent''), point = 1\<rparr>)"
    using sa rp assms(5,6)
    by (cases "replay ops s b2 (PyList xs) None") (auto simp: run_agent_def Let_def)
  show ?thesis
    using run execute_two_runs [where load_ta_agent = load_ta_agent and obs = obs
        and agent = agent, OF assms(1,2)]
    by (simp add: failed_run_scores_one)
qed

theorem illegal_replay_keeps_turn_count_witness:
  "fst (run_agent no_limits lane_ops (0, 0) quiet ''ta'' reference (0, 0)) = Next ((0, 2), goal_run)
   \<and> heuristic_search (fixed_agent ''candidate'' (Inr (PyList fence_after_move)))
        (prepare_board lane_ops (0, 0) (0, 2)) = (Inr (PyList fence_after_move), (0, 0))
   \<and> list_all is_action fence_after_move
   \<and> calculate_total_turns lane_ops (0, 0) (PyList fence_after_move) = Inr (Turns 1)
   \<and> simulate_action lane_ops (0, 0) fence_after_move = (Some InvalidFence, (0, 1))
   \<and> fst (execute_heuristic_search no_limits lane_ops (\<lambda>b. Some reference) (\<lambda>k. quiet)
            (fixed_agent ''candidate'' (Inr (PyList fence_after_move))) (0, 0)) =
       Inr \<lparr>failure = Some (Traceback InvalidFence), outcome = Turns 1, search = None,
            time = 0, memory = 0, point = 1\<rparr>"
  using illegal_replay_keeps_turn_count [where ops = lane_ops and s = "(0, 0)"
      and load_ta_agent = "\<lambda>b. Some reference" and ta = reference and cfg = no_limits
      and obs = "\<lambda>k. quiet" and ?b1.0 = "(0, 2)" and pta = goal_run
      and agent = "fixed_agent ''candidate'' (Inr (PyList fence_after_move))"
      and xs = fence_after_move and ?b2.0 = "(0, 0)" and t = "Turns 1" and e = InvalidFence
      and ?b3.0 = "(0, 1)"]
  by (simp add: reference_run lane_ops_simps prepare_board_def fixed_agent_def
        fence_after_move_def calculate_total_turns_def no_limits_def time_delta_quiet
        memory_usage_quiet)

subsection \<open>A search that raises under a hard limit\<close>

lemma raised_run:
  assumes "heuristic_search agent (prepare_board ops s b1) = (Inl e, b2)"
  shows "fst (run_agent cfg ops s obs ''agent'' agent b1) =
     (let t = time_delta_of obs; m = memory_usage_of ops b2 obs
      in if t > HARD_TIME_LIMIT cfg \<and> HARD_TIME_LIMIT cfg > 0 then
           Return \<lparr>failure = Some (TimeLimitExceeded t), outcome = Infinity, search = None,
                   time = t, memory = m, point = 1\<rparr>
         else if m > HARD_MEMORY_LIMIT cfg \<and> HARD_MEMORY_LIMIT cfg > 0 then
           Return \<lparr>failure = Some (MemoryLimitExceeded m), outcome = Infinity, search = None,
                   time = t, memory = m, point = 1\<rparr>
         else Next (b2, \<lparr>failure = Some (Traceback e), outcome = Infinity, search = None,
                         time = t, memory = m, point = 1\<rparr>))"
  using assms by (simp add: run_agent_def search_attempt_def replay_def Let_def)

text \<open>
  Claim C10.  The candidate's search raises \<open>e\<close>: the attempt leaves the solution absent
  and the traceback as failure.  If the elapsed time exceeds a positive time limit, the
  Performance returned carries the time-limit text; otherwise, if the memory exceeds a
  positive memory limit, the memory-limit text; the traceback is dropped, the measured
  time and memory are reported.  Only when no limit is exceeded does the traceback reach
  the final Performance.
\<close>

theorem limit_text_replaces_traceback:
  assumes "load_ta_agent (set_to_state ops s (new_board ops)) = Some ta"
    and "fst (run_agent cfg ops s (obs ''ta'') ''ta'' ta (set_to_state ops s (new_board ops)))
           = Next (b1, pta)"
    and "heuristic_search agent (prepare_board ops s b1) = (Inl e, b2)"
  shows "(let t = time_delta_of (obs ''agent'');
              m = memory_usage_of ops b2 (obs ''agent'');
              over_time = (t > HARD_TIME_LIMIT cfg \<and> HARD_TIME_LIMIT cfg > 0);
              over_memory = (m > HARD_MEMORY_LIMIT cfg \<and> HARD_MEMORY_LIMIT cfg > 0);
              result = fst (execute_heuristic_search cfg ops load_ta_agent obs agent s)
          in fst (search_attempt agent (prepare_board ops s b1)) = PyNone
             \<and> fst (snd (search_attempt agent (prepare_board ops s b1))) = Some (Traceback e)
             \<and> (over_time \<longrightarrow>
                  result = Inr \<lparr>failure = Some (TimeLimitExceeded t), outcome = Infinity,
                                search = None, time = t, memory = m, point = 1\<rparr>)
             \<and> (\<not> over_time \<and> over_memory \<longrightarrow>
                  result = Inr \<lparr>failure = Some (MemoryLimitExceeded m), outcome = Infinity,
                                search = None, time = t, memory = m, point = 1\<rparr>)
             \<and> (\<not> over_time \<and> \<not> over_memory \<longrightarrow>
                  result = Inr \<lparr>failure = Some (Traceback e), outcome = Infinity,
                                search = None, time = t, memory = m, point = 1\<rparr>))"
  using raised_run [OF assms(3), of cfg "obs ''agent''"]
    execute_two_runs [where load_ta_agent = load_ta_agent and obs = obs
        and agent = agent, OF assms(1,2)] assms(3)
  by (simp add: Let_def failed_run_scores_one search_attempt_def)

theorem limit_text_replaces_traceback_witness:
  "fst (run_agent five_seconds lane_ops (0, 0) quiet ''ta'' reference (0, 0))
     = Next ((0, 2), goal_run)
   \<and> heuristic_search failing (prepare_board lane_ops (0, 0) (0, 2))
       = (Inl (OtherError ''search failed''), (0, 0))
   \<and> fst (execute_heuristic_search five_seconds lane_ops (\<lambda>b. Some reference) candidate_slow
            failing (0, 0)) =
       Inr \<lparr>failure = Some (TimeLimitExceeded (36 / 5)), outcome = Infinity, search = None,
            time = 36 / 5, memory = 2, point = 1\<rparr>
   \<and> fst (execute_heuristic_search one_megabyte lane_ops (\<lambda>b. Some reference) candidate_slow
            failing (0, 0)) =
       Inr \<lparr>failure = Some (MemoryLimitExceeded 2), outcome = Infinity, search = None,
            time = 36 / 5, memory = 2, point = 1\<rparr>
   \<and> fst (execute_heuristic_search no_limits lane_ops (\<lambda>b. Some reference) candidate_slow
            failing (0, 0)) =
       Inr \<lparr>failure = Some (Traceback (OtherError ''search failed'')), outcome = Infinity,
            search = None, time = 36 / 5, memory = 2, point = 1\<rparr>"
  using limit_text_replaces_traceback [where ops = lane_ops and s = "(0, 0)"
      and load_ta_agent = "\<lambda>b. Some reference" and ta = reference and cfg = five_seconds
      and obs = candidate_slow and ?b1.0 = "(0, 2)" and pta = goal_run and agent = failing
      and e = "OtherError ''search failed''" and ?b2.0 = "(0, 0)"]
    limit_text_replaces_traceback [where ops = lane_ops and s = "(0, 0)"
      and load_ta_agent = "\<lambda>b. Some reference" and ta = reference and cfg = one_megabyte
      and obs = candidate_slow and ?b1.0 = "(0, 2)" and pta = goal_run and agent = failing
      and e = "OtherError ''search failed''" and ?b2.0 = "(0, 0)"]
    limit_text_replaces_traceback [where ops = lane_ops and s = "(0, 0)"
      and load_ta_agent = "\<lambda>b. Some reference" and ta = reference and cfg = no_limits
      and obs = candidate_slow and ?b1.0 = "(0, 2)" and pta = goal_run and agent = failing
      and e = "OtherError ''search failed''" and ?b2.0 = "(0, 0)"]
  by (simp add: reference_run lane_ops_simps prepare_board_def fixed_agent_def failing_def
        candidate_slow_def five_seconds_def one_megabyte_def no_limits_def Let_def
        time_delta_slow memory_usage_slow time_delta_quiet memory_usage_quiet)

subsection \<open>Search Runner: a value of the wrong shape\<close>

text \<open>
  Claim C8 says that after a shape-validation failure the run's solution stays absent,
  its outcome is +infinity, its point is 1 and the evaluation is not aborted.  The
  variable \<open>solution\<close> is assigned before the assertions, so the rejected value is still
  replayed.  When the candidate returns the integer 5, the Turn Calculator raises
  TypeError, which the replay handler does not catch: it leaves the entry point.  When
  the candidate returns a tuple of two legal moves that reach the goal, the run has the
  assertion's failure text, outcome 2 and point 2.
\<close>

theorem shape_failure_still_replayed:
  "fst (search_attempt (fixed_agent ''candidate'' (Inr (PyInt 5))) (0, 0)) = PyInt 5
   \<and> fst (execute_heuristic_search no_limits lane_ops (\<lambda>b. Some reference) (\<lambda>k. quiet)
            (fixed_agent ''candidate'' (Inr (PyInt 5))) (0, 0)) = Inl TypeError
   \<and> fst (run_agent no_limits lane_ops (0, 0) quiet ''agent''
            (fixed_agent ''candidate'' (Inr (PyTuple two_moves))) (0, 2)) =
       Next ((0, 2),
         \<lparr>failure = Some (Traceback (AssertionError
            ''Solution should be a LIST of actions. The current outcome is not a list.'')),
          outcome = Turns 2, search = None, time = 0, memory = 0, point = 2\<rparr>)"
proof -
  have int_run: "fst (run_agent no_limits lane_ops (0, 0) quiet ''agent''
      (fixed_agent ''candidate'' (Inr (PyInt 5))) (0, 2)) = Raise TypeError"
    by (simp add: run_agent_def search_attempt_def replay_def fixed_agent_def
        prepare_board_def lane_ops_simps time_delta_quiet memory_usage_quiet Let_def
        calculate_total_turns_def no_limits_def)
  have "fst (execute_heuristic_search no_limits lane_ops (\<lambda>b. Some reference) (\<lambda>k. quiet)
            (fixed_agent ''candidate'' (Inr (PyInt 5))) (0, 0)) = Inl TypeError"
    using execute_two_runs [where load_ta_agent = "\<lambda>b. Some reference" and ops = lane_ops
        and s = "(0, 0)" and ta = reference and cfg = no_limits and obs = "\<lambda>k. quiet"
        and ?b1.0 = "(0, 2)" and pta = goal_run
        and agent = "fixed_agent ''candidate'' (Inr (PyInt 5))"]
    by (simp add: reference_run lane_ops_simps int_run)
  moreover have "fst (search_attempt (fixed_agent ''candidate'' (Inr (PyInt 5))) (0, 0)) = PyInt 5"
    by (simp add: search_attempt_def fixed_agent_def)
  moreover have "fst (run_agent no_limits lane_ops (0, 0) quiet ''agent''
            (fixed_agent ''candidate'' (Inr (PyTuple two_moves))) (0, 2)) =
       Next ((0, 2),
         \<lparr>failure = Some (Traceback (AssertionError
            ''Solution should be a LIST of actions. The current outcome is not a list.'')),
          outcome = Turns 2, search = None, time = 0, memory = 0, point = 2\<rparr>)"
    by (simp add: run_agent_def search_attempt_def replay_def fixed_agent_def
        prepare_board_def lane_ops_simps time_delta_quiet memory_usage_quiet Let_def
        calculate_total_turns_def no_limits_def two_moves_def)
  ultimately show ?thesis by simp
qed

subsection \<open>The entry point, unfolded\<close>

lemma execute_unfold:
  "execute_heuristic_search cfg ops load_ta_agent obs agent s =
     (case load_ta_agent (set_to_state ops s (new_board ops)) of
        None \<Rightarrow> (Inl (KeyError ''ta''), [])
      | Some ta \<Rightarrow>
          (case run_agent cfg ops s (obs ''ta'') ''ta'' ta (set_to_state ops s (new_board ops)) of
             (Raise e, tr1) \<Rightarrow> (Inl e, tr1)
           | (Return q, tr1) \<Rightarrow> (Inr q, tr1)
           | (Next (b1, pta), tr1) \<Rightarrow>
               (case run_agent cfg ops s (obs ''agent'') ''agent'' agent b1 of
                  (Raise e, tr2) \<Rightarrow> (Inl e, tr1 @ tr2)
                | (Return q, tr2) \<Rightarrow> (Inr q, tr1 @ tr2)
                | (Next (b2, pa), tr2) \<Rightarrow>
                    (final_performance [''ta'' \<mapsto> pta, ''agent'' \<mapsto> pa], tr1 @ tr2))))"
  by (auto simp: execute_heuristic_search_def Let_def split: option.splits prod.splits flow.splits)




lemma execute_two_runs_trace:
  assumes "load_ta_agent (set_to_state ops s (new_board ops)) = Some ta"
    and "fst (run_agent cfg ops s (obs ''ta'') ''ta'' ta (set_to_state ops s (new_board ops)))
           = Next (b1, pta)"
  shows "snd (execute_heuristic_search cfg ops load_ta_agent obs agent s) =
           snd (run_agent cfg ops s (obs ''ta'') ''ta'' ta (set_to_state ops s (new_board ops)))
           @ snd (run_agent cfg ops s (obs ''agent'') ''agent'' agent b1)"
  using assms
  by (auto simp: execute_unfold split: prod.splits flow.splits)

subsection \<open>Scorer: the comparisons with the reference run\<close>




subsection \<open>The hard limits at the entry point\<close>

text \<open>
  Claim C4.  One run leaves the whole evaluation by \<open>return\<close> if and only if it is the
  candidate's run (key \<open>'agent'\<close>) and the rounded elapsed time exceeds a positive time
  limit or the rounded memory exceeds a positive memory limit; with both limits zero or
  negative no run returns early.  At the entry point, after a reference run that
  completed: if the candidate exceeds a positive limit, the evaluation returns the
  Performance with the limit text (the time text first), outcome +infinity and point 1,
  with the measured time and memory; the events of the evaluation end with the
  candidate's run, which holds no replay event, and no tier is scored.  If it exceeds
  none, the candidate's run does not return early and the result is the replay's
  exception or the tiered score of the two runs.
\<close>

theorem limit_short_circuit:
  "(let r = run_agent cfg ops s ob k a board;
        board1 = snd (heuristic_search a (prepare_board ops s board));
        t = time_delta_of ob;
        m = memory_usage_of ops board1 ob;
        over_time = (t > HARD_TIME_LIMIT cfg \<and> HARD_TIME_LIMIT cfg > 0);
        over_memory = (m > HARD_MEMORY_LIMIT cfg \<and> HARD_MEMORY_LIMIT cfg > 0)
    in ((\<exists>p. fst r = Return p) = (k = ''agent'' \<and> (over_time \<or> over_memory)))
       \<and> (k = ''agent'' \<and> (over_time \<or> over_memory) \<longrightarrow>
            fst r = Return \<lparr>failure = Some (if over_time then TimeLimitExceeded t
                                              else MemoryLimitExceeded m),
                             outcome = Infinity, search = None, time = t, memory = m,
                             point = 1\<rparr>
            \<and> ReplayReset \<notin> set (snd r) \<and> Simulate \<notin> set (snd r))
       \<and> (HARD_TIME_LIMIT cfg \<le> 0 \<and> HARD_MEMORY_LIMIT cfg \<le> 0 \<longrightarrow> (\<forall>p. fst r \<noteq> Return p)))
   \<and> (load_ta_agent (set_to_state ops s (new_board ops)) = Some ta \<longrightarrow>
       fst (run_agent cfg ops s (obs ''ta'') ''ta'' ta (set_to_state ops s (new_board ops)))
         = Next (b1, pta) \<longrightarrow>
       (let r = run_agent cfg ops s (obs ''agent'') ''agent'' agent b1;
            board2 = snd (heuristic_search agent (prepare_board ops s b1));
            t = time_delta_of (obs ''agent'');
            m = memory_usage_of ops board2 (obs ''agent'');
            over_time = (t > HARD_TIME_LIMIT cfg \<and> HARD_TIME_LIMIT cfg > 0);
            over_memory = (m > HARD_MEMORY_LIMIT cfg \<and> HARD_MEMORY_LIMIT cfg > 0);
            result = execute_heuristic_search cfg ops load_ta_agent obs agent s
        in (over_time \<or> over_memory \<longrightarrow>
              fst result = Inr \<lparr>failure = Some (if over_time then TimeLimitExceeded t
                                                  else MemoryLimitExceeded m),
                                 outcome = Infinity, search = None, time = t, memory = m,
                                 point = 1\<rparr>
              \<and> snd result =
                  snd (run_agent cfg ops s (obs ''ta'') ''ta'' ta
                         (set_to_state ops s (new_board ops))) @ snd r
              \<and> ReplayReset \<notin> set (snd r) \<and> Simulate \<notin> set (snd r))
           \<and> (\<not> over_time \<and> \<not> over_memory \<longrightarrow>
                (\<forall>p. fst r \<noteq> Return p)
                \<and> fst result =
                    (case fst r of
                       Raise e \<Rightarrow> Inl e
                     | Return p \<Rightarrow> Inr p
                     | Next (b2, pa) \<Rightarrow>
                         final_performance [''ta'' \<mapsto> pta, ''agent'' \<mapsto> pa]))))"
proof -
  let ?b0 = "set_to_state ops s (new_board ops)"
  let ?r = "run_agent cfg ops s (obs ''agent'') ''agent'' agent b1"
  let ?t = "time_delta_of (obs ''agent'')"
  let ?m = "memory_usage_of ops (snd (heuristic_search agent (prepare_board ops s b1)))
              (obs ''agent'')"
  let ?over_time = "?t > HARD_TIME_LIMIT cfg \<and> HARD_TIME_LIMIT cfg > 0"
  let ?over_memory = "?m > HARD_MEMORY_LIMIT cfg \<and> HARD_MEMORY_LIMIT cfg > 0"
  let ?limit = "\<lparr>failure = Some (if ?over_time then TimeLimitExceeded ?t
                                    else MemoryLimitExceeded ?m),
                  outcome = Infinity, search = None, time = ?t, memory = ?m, point = 1\<rparr>"
  let ?result = "execute_heuristic_search cfg ops load_ta_agent obs agent s"
  have per_run: "(let r = run_agent cfg ops s ob k a board;
        board1 = snd (heuristic_search a (prepare_board ops s board));
        t = time_delta_of ob;
        m = memory_usage_of ops board1 ob;
        over_time = (t > HARD_TIME_LIMIT cfg \<and> HARD_TIME_LIMIT cfg > 0);
        over_memory = (m > HARD_MEMORY_LIMIT cfg \<and> HARD_MEMORY_LIMIT cfg > 0)
    in ((\<exists>p. fst r = Return p) = (k = ''agent'' \<and> (over_time \<or> over_memory)))
       \<and> (k = ''agent'' \<and> (over_time \<or> over_memory) \<longrightarrow>
            fst r = Return \<lparr>failure = Some (if over_time then TimeLimitExceeded t
                                              else MemoryLimitExceeded m),
                             outcome = Infinity, search = None, time = t, memory = m,
                             point = 1\<rparr>
            \<and> ReplayReset \<notin> set (snd r) \<and> Simulate \<notin> set (snd r))
       \<and> (HARD_TIME_LIMIT cfg \<le> 0 \<and> HARD_MEMORY_LIMIT cfg \<le> 0 \<longrightarrow> (\<forall>p. fst r \<noteq> Return p)))"
    by (rule run_agent_limit_return)
  have cand: "((\<exists>p. fst ?r = Return p) = (?over_time \<or> ?over_memory))
      \<and> (?over_time \<or> ?over_memory \<longrightarrow>
            fst ?r = Return ?limit
            \<and> ReplayReset \<notin> set (snd ?r) \<and> Simulate \<notin> set (snd ?r))"
    using run_agent_limit_return [of cfg ops s "obs ''agent''" "''agent''" agent b1]
    unfolding Let_def by simp
  have entry: "load_ta_agent ?b0 = Some ta \<longrightarrow>
       fst (run_agent cfg ops s (obs ''ta'') ''ta'' ta ?b0) = Next (b1, pta) \<longrightarrow>
       ((?over_time \<or> ?over_memory \<longrightarrow>
              fst ?result = Inr ?limit
              \<and> snd ?result = snd (run_agent cfg ops s (obs ''ta'') ''ta'' ta ?b0) @ snd ?r
              \<and> ReplayReset \<notin> set (snd ?r) \<and> Simulate \<notin> set (snd ?r))
           \<and> (\<not> ?over_time \<and> \<not> ?over_memory \<longrightarrow>
                (\<forall>p. fst ?r \<noteq> Return p)
                \<and> fst ?result =
                    (case fst ?r of
                       Raise e \<Rightarrow> Inl e
                     | Return p \<Rightarrow> Inr p
                     | Next (b2, pa) \<Rightarrow>
                         final_performance [''ta'' \<mapsto> pta, ''agent'' \<mapsto> pa])))"
  proof (intro impI)
    assume ta: "load_ta_agent ?b0 = Some ta"
      and run: "fst (run_agent cfg ops s (obs ''ta'') ''ta'' ta ?b0) = Next (b1, pta)"
    have res: "fst ?result =
           (case fst ?r of
              Raise e \<Rightarrow> Inl e
            | Return p \<Rightarrow> Inr p
            | Next (b2, pa) \<Rightarrow> final_performance [''ta'' \<mapsto> pta, ''agent'' \<mapsto> pa])"
      by (rule execute_two_runs [where load_ta_agent = load_ta_agent and obs = obs
            and agent = agent, OF ta run])
    have tr: "snd ?result = snd (run_agent cfg ops s (obs ''ta'') ''ta'' ta ?b0) @ snd ?r"
      by (rule execute_two_runs_trace [where load_ta_agent = load_ta_agent and obs = obs
            and agent = agent, OF ta run])
    have over: "fst ?result = Inr ?limit
              \<and> snd ?result = snd (run_agent cfg ops s (obs ''ta'') ''ta'' ta ?b0) @ snd ?r
              \<and> ReplayReset \<notin> set (snd ?r) \<and> Simulate \<notin> set (snd ?r)"
      if "?over_time \<or> ?over_memory"
    proof -
      have ret: "fst ?r = Return ?limit
          \<and> ReplayReset \<notin> set (snd ?r) \<and> Simulate \<notin> set (snd ?r)"
        using cand that by blast
      then have "fst ?result = Inr ?limit" using res by simp
      then show ?thesis using ret tr by blast
    qed
    have under: "(\<forall>p. fst ?r \<noteq> Return p)
                \<and> fst ?result =
                    (case fst ?r of
                       Raise e \<Rightarrow> Inl e
                     | Return p \<Rightarrow> Inr p
                     | Next (b2, pa) \<Rightarrow>
                         final_performance [''ta'' \<mapsto> pta, ''agent'' \<mapsto> pa])"
      if "\<not> ?over_time \<and> \<not> ?over_memory"
    proof -
      have "\<not> (\<exists>p. fst ?r = Return p)" using cand that by blast
      then show ?thesis using res by blast
    qed
    show "(?over_time \<or> ?over_memory \<longrightarrow>
              fst ?result = Inr ?limit
              \<and> snd ?result = snd (run_agent cfg ops s (obs ''ta'') ''ta'' ta ?b0) @ snd ?r
              \<and> ReplayReset \<notin> set (snd ?r) \<and> Simulate \<notin> set (snd ?r))
           \<and> (\<not> ?over_time \<and> \<not> ?over_memory \<longrightarrow>
                (\<forall>p. fst ?r \<noteq> Return p)
                \<and> fst ?result =
                    (case fst ?r of
                       Raise e \<Rightarrow> Inl e
                     | Return p \<Rightarrow> Inr p
                     | Next (b2, pa) \<Rightarrow>
                         final_performance [''ta'' \<mapsto> pta, ''agent'' \<mapsto> pa]))"
      using over under by blast
  qed
  show ?thesis
    using per_run entry unfolding Let_def by (rule conjI)
qed

theorem limit_short_circuit_witness:
  "fst (run_agent five_seconds lane_ops (0, 0) slow ''agent'' winner (0, 0))
     = Return \<lparr>failure = Some (TimeLimitExceeded (36 / 5)), outcome = Infinity,
               search = None, time = 36 / 5, memory = 2, point = 1\<rparr>
   \<and> fst (run_agent one_megabyte lane_ops (0, 0) slow ''agent'' winner (0, 0))
     = Return \<lparr>failure = Some (MemoryLimitExceeded 2), outcome = Infinity,
               search = None, time = 36 / 5, memory = 2, point = 1\<rparr>
   \<and> (\<forall>p. fst (run_agent five_seconds lane_ops (0, 0) slow ''ta'' reference (0, 0)) \<noteq> Return p)
   \<and> (\<forall>p. fst (run_agent no_limits lane_ops (0, 0) slow ''agent'' winner (0, 0)) \<noteq> Return p)
   \<and> fst (run_agent five_seconds lane_ops (0, 0) quiet ''ta'' reference (0, 0))
       = Next ((0, 2), goal_run)
   \<and> fst (execute_heuristic_search five_seconds lane_ops (\<lambda>b. Some reference) candidate_slow
            winner (0, 0)) =
       Inr \<lparr>failure = Some (TimeLimitExceeded (36 / 5)), outcome = Infinity, search = None,
            time = 36 / 5, memory = 2, point = 1\<rparr>
   \<and> fst (execute_heuristic_search one_megabyte lane_ops (\<lambda>b. Some reference) candidate_slow
            winner (0, 0)) =
       Inr \<lparr>failure = Some (MemoryLimitExceeded 2), outcome = Infinity, search = None,
            time = 36 / 5, memory = 2, point = 1\<rparr>"
  using limit_short_circuit [where cfg = five_seconds and ops = lane_ops and s = "(0, 0)"
      and ob = slow and k = "''agent''" and a = winner and board = "(0, 0)"
      and load_ta_agent = "\<lambda>b. Some reference" and ta = reference and obs = candidate_slow
      and ?b1.0 = "(0, 2)" and pta = goal_run and agent = winner]
    limit_short_circuit [where cfg = one_megabyte and ops = lane_ops and s = "(0, 0)"
      and ob = slow and k = "''agent''" and a = winner and board = "(0, 0)"
      and load_ta_agent = "\<lambda>b. Some reference" and ta = reference and obs = candidate_slow
      and ?b1.0 = "(0, 2)" and pta = goal_run and agent = winner]
    limit_short_circuit [where cfg = five_seconds and ops = lane_ops and s = "(0, 0)"
      and ob = slow and k = "''ta''" and a = reference and board = "(0, 0)"
      and load_ta_agent = "\<lambda>b. Some reference" and ta = reference and obs = "\<lambda>k. quiet"
      and ?b1.0 = "(0, 2)" and pta = goal_run and agent = winner]
    limit_short_circuit [where cfg = no_limits and ops = lane_ops and s = "(0, 0)"
      and ob = slow and k = "''agent''" and a = winner and board = "(0, 0)"
      and load_ta_agent = "\<lambda>b. Some reference" and ta = reference and obs = "\<lambda>k. quiet"
      and ?b1.0 = "(0, 2)" and pta = goal_run and agent = winner]
  by (simp add: Let_def five_seconds_def one_megabyte_def no_limits_def time_delta_slow
        memory_usage_slow time_delta_quiet memory_usage_quiet reference_run
        lane_ops_simps candidate_slow_def)

end
